theory Spec2Isabelle
  imports Complex_Main
begin

section \<open>The labelling tool of app.py\<close>

text \<open>
  The two classes of app.py, \<^verbatim>\<open>ImageLabel\<close> and \<^verbatim>\<open>LabelingTool\<close>, share one
  state: the tool owns the registry (\<^verbatim>\<open>class_to_id\<close>, \<^verbatim>\<open>current_class_id\<close>) and the
  label owns the boxes and the display transform. The state is one record and every
  handler is a function from the state to a result.

  Python's floats are modelled as reals: every quotient is the exact one and rounding is
  not part of the model. Integers are unbounded, as in Python. An uncaught exception is a
  value of \<open>py_error\<close>.
\<close>

subsection \<open>Data\<close>

datatype py_error = ZeroDivisionError | ValueError | TypeError | IndexError | KeyError
  | AttributeError

datatype button = LeftButton | OtherButton

text \<open>A pixmap is known by its size in pixels; a null pixmap has size \<open>(0, 0)\<close>.\<close>

type_synonym qsize = "nat \<times> nat"

text \<open>
  \<^verbatim>\<open>current_bbox\<close> is the list \<^verbatim>\<open>[x, y, w, h]\<close>; \<^verbatim>\<open>add_class_id\<close> appends the class id
  to it and moves it to \<^verbatim>\<open>bboxes\<close>, so an element of \<^verbatim>\<open>bboxes\<close> is
  \<^verbatim>\<open>[x, y, w, h, class_id]\<close>.
\<close>

type_synonym pending_bbox = "real \<times> real \<times> real \<times> real"
type_synonym bbox = "real \<times> real \<times> real \<times> real \<times> int"

text \<open>A Python dict keeps its keys in insertion order: an association list.\<close>

type_synonym pydict = "(string \<times> int) list"

record tool =
  class_to_id :: pydict
  current_class_id :: int
  bboxes :: "bbox list"
  current_bbox :: "pending_bbox option"
  drawing :: bool
  scale_factor :: real
  image_offset :: "real \<times> real"
  original_pixmap :: "qsize option"
  pixmap :: "qsize option"
  widget_size :: qsize
  start_xy :: "real \<times> real"
  image_path :: "string option"
  class_input_enabled :: bool
  save_button_enabled :: bool

subsection \<open>Dictionary operations\<close>

definition dict_contains :: "pydict \<Rightarrow> string \<Rightarrow> bool" where
  "dict_contains d k = (map_of d k \<noteq> None)"

fun dict_set :: "pydict \<Rightarrow> string \<Rightarrow> int \<Rightarrow> pydict" where
  "dict_set [] k v = [(k, v)]"
| "dict_set ((k', v') # d) k v = (if k' = k then (k, v) # d else (k', v') # dict_set d k v)"

definition dict_get :: "pydict \<Rightarrow> string \<Rightarrow> py_error + int" where
  "dict_get d k = (case map_of d k of None \<Rightarrow> Inl KeyError | Some v \<Rightarrow> Inr v)"

definition dict_values :: "pydict \<Rightarrow> int list" where
  "dict_values d = map snd d"

text \<open>\<^verbatim>\<open>max(xs)\<close> raises ValueError on an empty sequence.\<close>

fun py_max :: "int list \<Rightarrow> py_error + int" where
  "py_max [] = Inl ValueError"
| "py_max (x # xs) = Inr (fold max xs x)"

subsection \<open>The toolkit's scaling of a pixmap\<close>

text \<open>
  \<^verbatim>\<open>QPixmap.scaled(size, Qt.KeepAspectRatio, ...)\<close> belongs to Qt, not to app.py. Its
  result has integer dimensions: Qt fits the pixmap's size into the target with integer
  division, and gives each side at least one pixel; a null pixmap or an empty target gives
  a null pixmap.
\<close>

definition QSize_scaled :: "qsize \<Rightarrow> qsize \<Rightarrow> qsize" where
  "QSize_scaled sz target =
     (case (sz, target) of ((wd, ht), (swd, sht)) \<Rightarrow>
        if wd = 0 \<or> ht = 0 then target
        else let rw = sht * wd div ht
             in if rw \<le> swd then (rw, sht) else (swd, swd * ht div wd))"

definition QPixmap_scaled :: "qsize \<Rightarrow> qsize \<Rightarrow> qsize" where
  "QPixmap_scaled pm target =
     (if fst pm = 0 \<or> snd pm = 0 then (0, 0)
      else if fst target = 0 \<or> snd target = 0 then (0, 0)
      else case QSize_scaled pm target of (w, h) \<Rightarrow> (max w 1, max h 1))"

subsection \<open>ImageLabel\<close>

text \<open>Python's \<^verbatim>\<open>a / b\<close>: ZeroDivisionError when \<open>b\<close> is zero.\<close>

definition py_div :: "real \<Rightarrow> real \<Rightarrow> py_error + real" where
  "py_div a b = (if b = 0 then Inl ZeroDivisionError else Inr (a / b))"

text \<open>
  \<^verbatim>\<open>update_scaled_pixmap\<close> (lines 28 to 36). A QPixmap object is truthy also when it is
  null, so the guard is on \<^verbatim>\<open>original_pixmap\<close> being set.
\<close>

definition update_scaled_pixmap :: "tool \<Rightarrow> py_error + tool" where
  "update_scaled_pixmap s =
     (case original_pixmap s of
        None \<Rightarrow> Inr s
      | Some (ow, oh) \<Rightarrow>
          (case widget_size s of (vw, vh) \<Rightarrow>
             (case QPixmap_scaled (ow, oh) (vw, vh) of (sw, sh) \<Rightarrow>
                (case py_div (real vw) (real ow) of
                   Inl e \<Rightarrow> Inl e
                 | Inr rx \<Rightarrow>
                     (case py_div (real vh) (real oh) of
                        Inl e \<Rightarrow> Inl e
                      | Inr ry \<Rightarrow>
                          Inr (s\<lparr>scale_factor := min rx ry,
                                 image_offset := ((real vw - real sw) / 2, (real vh - real sh) / 2),
                                 pixmap := Some (sw, sh)\<rparr>))))))"

definition setPixmap :: "tool \<Rightarrow> qsize \<Rightarrow> py_error + tool" where
  "setPixmap s pm = update_scaled_pixmap (s\<lparr>original_pixmap := Some pm\<rparr>)"

text \<open>The toolkit has given the widget its new size when \<^verbatim>\<open>resizeEvent\<close> runs.\<close>

definition resizeEvent :: "tool \<Rightarrow> qsize \<Rightarrow> py_error + tool" where
  "resizeEvent s sz = update_scaled_pixmap (s\<lparr>widget_size := sz\<rparr>)"

text \<open>
  Display space to image space, as lines 45, 46, 52 and 53 compute it, and image space to
  display space, as lines 77, 78, 91 and 92 do.
\<close>

definition to_image_space :: "tool \<Rightarrow> real \<times> real \<Rightarrow> py_error + real \<times> real" where
  "to_image_space s p =
     (case py_div (fst p - fst (image_offset s)) (scale_factor s) of
        Inl e \<Rightarrow> Inl e
      | Inr x \<Rightarrow>
          (case py_div (snd p - snd (image_offset s)) (scale_factor s) of
             Inl e \<Rightarrow> Inl e
           | Inr y \<Rightarrow> Inr (x, y)))"

definition to_display_space :: "tool \<Rightarrow> real \<times> real \<Rightarrow> real \<times> real" where
  "to_display_space s p =
     (fst p * scale_factor s + fst (image_offset s),
      snd p * scale_factor s + snd (image_offset s))"

definition mousePressEvent :: "tool \<Rightarrow> button \<Rightarrow> int \<times> int \<Rightarrow> py_error + tool" where
  "mousePressEvent s b ev =
     (if b = LeftButton \<and> original_pixmap s \<noteq> None then
        (case to_image_space s (real_of_int (fst ev), real_of_int (snd ev)) of
           Inl e \<Rightarrow> Inl e
         | Inr (sx, sy) \<Rightarrow>
             Inr (s\<lparr>drawing := True,
                    start_xy := (sx, sy),
                    current_bbox := Some (sx, sy, 0, 0),
                    class_input_enabled := False\<rparr>))
      else Inr s)"

text \<open>Line 54 assigns into \<^verbatim>\<open>current_bbox\<close>: a TypeError when it is None.\<close>

definition mouseMoveEvent :: "tool \<Rightarrow> int \<times> int \<Rightarrow> py_error + tool" where
  "mouseMoveEvent s ev =
     (if drawing s then
        (case to_image_space s (real_of_int (fst ev), real_of_int (snd ev)) of
           Inl e \<Rightarrow> Inl e
         | Inr (ex, ey) \<Rightarrow>
             (case current_bbox s of
                None \<Rightarrow> Inl TypeError
              | Some (x, y, w, h) \<Rightarrow>
                  Inr (s\<lparr>current_bbox :=
                           Some (x, y, ex - fst (start_xy s), ey - snd (start_xy s))\<rparr>)))
      else Inr s)"

definition mouseReleaseEvent :: "tool \<Rightarrow> button \<Rightarrow> tool" where
  "mouseReleaseEvent s b =
     (if b = LeftButton \<and> drawing s
      then s\<lparr>drawing := False, class_input_enabled := True\<rparr>
      else s)"

text \<open>
  Line 85: the names whose id is the box's, in the dict's order, and the first of them;
  IndexError when there is none.
\<close>

definition reverse_lookup :: "pydict \<Rightarrow> int \<Rightarrow> py_error + string" where
  "reverse_lookup d class_id =
     (case map fst (filter (\<lambda>(name, i). i = class_id) d) of
        [] \<Rightarrow> Inl IndexError
      | name # _ \<Rightarrow> Inr name)"

type_synonym qrect = "real \<times> real \<times> real \<times> real"

definition display_rect :: "tool \<Rightarrow> pending_bbox \<Rightarrow> qrect" where
  "display_rect s b =
     (case b of (x, y, w, h) \<Rightarrow>
        (fst (to_display_space s (x, y)), snd (to_display_space s (x, y)),
         w * scale_factor s, h * scale_factor s))"

fun paint_boxes :: "tool \<Rightarrow> bbox list \<Rightarrow> py_error + (qrect \<times> string) list" where
  "paint_boxes s [] = Inr []"
| "paint_boxes s ((x, y, w, h, class_id) # bs) =
     (case reverse_lookup (class_to_id s) class_id of
        Inl e \<Rightarrow> Inl e
      | Inr class_name \<Rightarrow>
          (case paint_boxes s bs of
             Inl e \<Rightarrow> Inl e
           | Inr drawn \<Rightarrow> Inr ((display_rect s (x, y, w, h), class_name) # drawn)))"

text \<open>
  \<^verbatim>\<open>paintEvent\<close>: the labelled rectangles of the committed boxes and the rectangle of
  the box being drawn, when there is one.
\<close>

definition paintEvent :: "tool \<Rightarrow> py_error + (qrect \<times> string) list \<times> qrect option" where
  "paintEvent s =
     (case original_pixmap s of
        None \<Rightarrow> Inr ([], None)
      | Some _ \<Rightarrow>
          (case paint_boxes s (bboxes s) of
             Inl e \<Rightarrow> Inl e
           | Inr drawn \<Rightarrow> Inr (drawn, map_option (display_rect s) (current_bbox s))))"

subsection \<open>LabelingTool\<close>

text \<open>
  \<^verbatim>\<open>__init__\<close>: the argument is the content of the mapping file, as \<^verbatim>\<open>json.load\<close>
  returns it, or None when the file does not exist. The label is given 800 by 600 pixels
  (line 132); the layout gives it another size when the window is shown, which is a
  \<open>Resize\<close> event of the session. \<^verbatim>\<open>start_x\<close>, \<^verbatim>\<open>start_y\<close> do not exist before the first press; they are
  read only while \<^verbatim>\<open>drawing\<close>, which a press sets, so their initial value is never read.
\<close>

definition load_mapping :: "pydict \<Rightarrow> py_error + pydict \<times> int" where
  "load_mapping m =
     (case py_max (dict_values m) of
        Inl e \<Rightarrow> Inl e
      | Inr biggest \<Rightarrow> Inr (m, biggest + 1))"

definition new_tool :: "pydict \<Rightarrow> int \<Rightarrow> tool" where
  "new_tool d n =
     \<lparr>class_to_id = d, current_class_id = n, bboxes = [], current_bbox = None,
      drawing = False, scale_factor = 1, image_offset = (0, 0), original_pixmap = None,
      pixmap = None, widget_size = (800, 600), start_xy = (0, 0), image_path = None,
      class_input_enabled = False, save_button_enabled = False\<rparr>"

definition init :: "pydict option \<Rightarrow> py_error + tool" where
  "init mapping_file =
     (case mapping_file of
        None \<Rightarrow> Inr (new_tool [] 0)
      | Some m \<Rightarrow>
          (case load_mapping m of
             Inl e \<Rightarrow> Inl e
           | Inr (d, n) \<Rightarrow> Inr (new_tool d n)))"

text \<open>
  \<^verbatim>\<open>load_image\<close>: the arguments are the path the file dialog returns (empty when it is
  cancelled) and the size of the pixmap read from that path.
\<close>

definition load_image :: "tool \<Rightarrow> string \<Rightarrow> qsize \<Rightarrow> py_error + tool" where
  "load_image s path pm =
     (let s1 = s\<lparr>image_path := Some path\<rparr>
      in if path \<noteq> [] then
           (case setPixmap s1 pm of
              Inl e \<Rightarrow> Inl e
            | Inr s2 \<Rightarrow> Inr (s2\<lparr>bboxes := [], save_button_enabled := False\<rparr>))
         else Inr s1)"

text \<open>
  Lines 161 to 166: the registry, the counter and the id of the name. The subscript of
  line 166 raises KeyError on a missing key.
\<close>

definition resolve :: "pydict \<Rightarrow> int \<Rightarrow> string \<Rightarrow> py_error + pydict \<times> int \<times> int" where
  "resolve d n class_name =
     (case (if \<not> dict_contains d class_name then (dict_set d class_name n, n + 1) else (d, n)) of
        (d', n') \<Rightarrow>
          (case dict_get d' class_name of
             Inl e \<Rightarrow> Inl e
           | Inr class_id \<Rightarrow> Inr (d', n', class_id)))"

text \<open>
  \<^verbatim>\<open>add_class_id\<close>: the argument is the text of the input field. A list of four
  elements is truthy, so the first guard is on \<^verbatim>\<open>current_bbox\<close> being set.
\<close>

definition add_class_id :: "tool \<Rightarrow> string \<Rightarrow> py_error + tool" where
  "add_class_id s class_name =
     (case current_bbox s of
        None \<Rightarrow> Inr s
      | Some (x, y, w, h) \<Rightarrow>
          if class_name \<noteq> [] then
            (case resolve (class_to_id s) (current_class_id s) class_name of
               Inl e \<Rightarrow> Inl e
             | Inr (d', n', class_id) \<Rightarrow>
                 Inr (s\<lparr>class_to_id := d', current_class_id := n',
                        bboxes := bboxes s @ [(x, y, w, h, class_id)],
                        current_bbox := None,
                        save_button_enabled := True\<rparr>))
          else Inr s)"

text \<open>
  Lines 193 to 198: the five numbers of a label line. The line is their text, joined by
  spaces; how Python prints a float is not part of the model.
\<close>

type_synonym label_line = "int \<times> real \<times> real \<times> real \<times> real"

definition encode_line :: "qsize \<Rightarrow> bbox \<Rightarrow> py_error + label_line" where
  "encode_line img b =
     (case (img, b) of ((img_width, img_height), (x, y, w, h, class_id)) \<Rightarrow>
        (case py_div (x + w / 2) (real img_width) of
           Inl e \<Rightarrow> Inl e
         | Inr x_center \<Rightarrow>
             (case py_div (y + h / 2) (real img_height) of
                Inl e \<Rightarrow> Inl e
              | Inr y_center \<Rightarrow>
                  (case py_div w (real img_width) of
                     Inl e \<Rightarrow> Inl e
                   | Inr width_norm \<Rightarrow>
                       (case py_div h (real img_height) of
                          Inl e \<Rightarrow> Inl e
                        | Inr height_norm \<Rightarrow>
                            Inr (class_id, x_center, y_center, width_norm, height_norm))))))"

fun encode_lines :: "qsize \<Rightarrow> bbox list \<Rightarrow> py_error + label_line list" where
  "encode_lines img [] = Inr []"
| "encode_lines img (b # bs) =
     (case encode_line img b of
        Inl e \<Rightarrow> Inl e
      | Inr l \<Rightarrow>
          (case encode_lines img bs of
             Inl e \<Rightarrow> Inl e
           | Inr ls \<Rightarrow> Inr (l # ls)))"

text \<open>
  \<^verbatim>\<open>save_labels\<close>: the new state and the lines of the label file, None when nothing is
  written. \<^verbatim>\<open>self.label.pixmap()\<close> is the pixmap \<^verbatim>\<open>update_scaled_pixmap\<close> gave to
  the QLabel (line 36), the one \<^verbatim>\<open>paintEvent\<close> reads at line 68. The manifest and the
  mapping file, written after the label file, are left out.
\<close>

definition save_labels :: "tool \<Rightarrow> py_error + tool \<times> label_line list option" where
  "save_labels s =
     (case image_path s of
        None \<Rightarrow> Inl AttributeError
      | Some path \<Rightarrow>
          if path = [] \<or> bboxes s = [] then Inr (s, None)
          else
            (case pixmap s of
               None \<Rightarrow> Inl AttributeError
             | Some img \<Rightarrow>
                 (case encode_lines img (bboxes s) of
                    Inl e \<Rightarrow> Inl e
                  | Inr ls \<Rightarrow> Inr (s\<lparr>save_button_enabled := False\<rparr>, Some ls))))"

subsection \<open>Sessions\<close>

datatype event =
    Resize qsize
  | MousePress button "int \<times> int"
  | MouseMove "int \<times> int"
  | MouseRelease button
  | LoadImage string qsize
  | AddClassId string
  | SaveLabels

definition step :: "tool \<Rightarrow> event \<Rightarrow> py_error + tool" where
  "step s ev =
     (case ev of
        Resize sz \<Rightarrow> resizeEvent s sz
      | MousePress b p \<Rightarrow> mousePressEvent s b p
      | MouseMove p \<Rightarrow> mouseMoveEvent s p
      | MouseRelease b \<Rightarrow> Inr (mouseReleaseEvent s b)
      | LoadImage path pm \<Rightarrow> load_image s path pm
      | AddClassId class_name \<Rightarrow> add_class_id s class_name
      | SaveLabels \<Rightarrow> map_sum id fst (save_labels s))"

text \<open>The events of a session, in order; an exception ends the session.\<close>

fun run :: "tool \<Rightarrow> event list \<Rightarrow> py_error + tool" where
  "run s [] = Inr s"
| "run s (ev # evs) =
     (case step s ev of
        Inl e \<Rightarrow> Inl e
      | Inr s' \<Rightarrow> run s' evs)"

text \<open>Resolving a list of names in turn: the registry, the counter and the ids.\<close>

fun resolve_all :: "pydict \<Rightarrow> int \<Rightarrow> string list \<Rightarrow> py_error + pydict \<times> int \<times> int list" where
  "resolve_all d n [] = Inr (d, n, [])"
| "resolve_all d n (name # names) =
     (case resolve d n name of
        Inl e \<Rightarrow> Inl e
      | Inr (d', n', i) \<Rightarrow>
          (case resolve_all d' n' names of
             Inl e \<Rightarrow> Inl e
           | Inr (d'', n'', ids) \<Rightarrow> Inr (d'', n'', i # ids)))"

text \<open>
  A whole session: the tool is created, the events run, and Save Labels is pressed. The
  result is the content of the label file, or None when no file is written.
\<close>

definition session_labels :: "pydict option \<Rightarrow> event list \<Rightarrow> py_error + label_line list option" where
  "session_labels mapping_file evs =
     (case init mapping_file of
        Inl e \<Rightarrow> Inl e
      | Inr s0 \<Rightarrow>
          (case run s0 evs of
             Inl e \<Rightarrow> Inl e
           | Inr s \<Rightarrow> map_sum id snd (save_labels s)))"

text \<open>Every class id of a committed box is the id of some name of the registry.\<close>

definition ids_registered :: "tool \<Rightarrow> bool" where
  "ids_registered s =
     list_all (\<lambda>(x, y, w, h, class_id). class_id \<in> snd ` set (class_to_id s)) (bboxes s)"

section \<open>Properties\<close>

lemmas handler_defs =
  step_def load_image_def setPixmap_def resizeEvent_def update_scaled_pixmap_def
  QPixmap_scaled_def QSize_scaled_def py_div_def mousePressEvent_def mouseMoveEvent_def
  mouseReleaseEvent_def to_image_space_def add_class_id_def resolve_def dict_contains_def
  dict_get_def new_tool_def save_labels_def encode_line_def init_def load_mapping_def
  dict_values_def

subsection \<open>The registry\<close>

lemma dict_set_fresh: "map_of d k = None \<Longrightarrow> dict_set d k v = d @ [(k, v)]"
  by (induction d) (auto split: if_splits)

lemma map_of_dict_set: "map_of (dict_set d k v) k = Some v"
  by (induction d) auto

lemma resolve_registered: "map_of d k = Some i \<Longrightarrow> resolve d n k = Inr (d, n, i)"
  by (simp add: resolve_def dict_contains_def dict_get_def)

lemma resolve_fresh: "map_of d k = None \<Longrightarrow> resolve d n k = Inr (d @ [(k, n)], n + 1, n)"
proof -
  assume fresh: "map_of d k = None"
  have "map_of (dict_set d k n) k = Some n"
    by (rule map_of_dict_set)
  then have "dict_get (dict_set d k n) k = Inr n"
    by (simp add: dict_get_def)
  with fresh show ?thesis
    by (simp add: resolve_def dict_contains_def dict_set_fresh [symmetric])
qed

lemma resolve_total: "\<exists>d' n' i. resolve d n k = Inr (d', n', i)"
proof (cases "map_of d k")
  case None
  then show ?thesis by (simp add: resolve_fresh)
next
  case (Some i)
  then show ?thesis by (simp add: resolve_registered)
qed

lemma resolve_grows:
  assumes "resolve d n k = Inr (d', n', i)"
  shows "set d \<subseteq> set d'" and "(k, i) \<in> set d'"
proof -
  show "set d \<subseteq> set d'"
  proof (cases "map_of d k")
    case None
    with assms show ?thesis by (auto simp: resolve_fresh)
  next
    case (Some j)
    with assms show ?thesis by (auto simp: resolve_registered)
  qed
  show "(k, i) \<in> set d'"
  proof (cases "map_of d k")
    case None
    with assms show ?thesis by (auto simp: resolve_fresh)
  next
    case (Some j)
    with assms show ?thesis by (auto simp: resolve_registered dest: map_of_SomeD)
  qed
qed

subsection \<open>Commit\<close>

text \<open>
  C10. In a state with no pending box (\<^verbatim>\<open>current_bbox\<close> is None), a commit leaves the
  whole state as it is, whatever the class name: no box is appended, the name is not
  registered and the counter keeps its value.
\<close>

theorem add_class_id_without_pending:
  "current_bbox s = None \<Longrightarrow> add_class_id s class_name = Inr s"
  by (simp add: add_class_id_def)

theorem add_class_id_without_pending_witness:
  "current_bbox (new_tool [] 0) = None \<and>
   add_class_id (new_tool [] 0) ''cat'' = Inr (new_tool [] 0)"
  using add_class_id_without_pending [of "new_tool [] 0" "''cat''"]
  by (simp add: new_tool_def)

text \<open>
  C2, as the code has it. With a pending box, a commit whose class name is empty leaves
  the whole state as it is. A class name that is not empty is the only other condition:
  the commit then succeeds, moves the pending box to the committed list and clears it,
  also when the box has zero width or zero height.
\<close>

theorem add_class_id_guard:
  "current_bbox s = Some b \<Longrightarrow>
     add_class_id s [] = Inr s \<and>
     (class_name \<noteq> [] \<longrightarrow>
        (\<exists>s'. add_class_id s class_name = Inr s' \<and> current_bbox s' = None \<and>
              length (bboxes s') = Suc (length (bboxes s))))"
proof -
  assume pending: "current_bbox s = Some b"
  obtain x y w h where b: "b = (x, y, w, h)"
    by (cases b) auto
  obtain d' n' i where "resolve (class_to_id s) (current_class_id s) class_name = Inr (d', n', i)"
    using resolve_total by blast
  with pending b show ?thesis
    by (simp add: add_class_id_def)
qed

theorem add_class_id_guard_witness:
  "current_bbox ((new_tool [] 0)\<lparr>current_bbox := Some (100, 100, 0, 0)\<rparr>) = Some (100, 100, 0, 0) \<and>
   add_class_id ((new_tool [] 0)\<lparr>current_bbox := Some (100, 100, 0, 0)\<rparr>) []
     = Inr ((new_tool [] 0)\<lparr>current_bbox := Some (100, 100, 0, 0)\<rparr>) \<and>
   (\<exists>s'. add_class_id ((new_tool [] 0)\<lparr>current_bbox := Some (100, 100, 0, 0)\<rparr>) ''cat'' = Inr s' \<and>
         current_bbox s' = None \<and>
         length (bboxes s') = Suc (length (bboxes ((new_tool [] 0)\<lparr>current_bbox := Some (100, 100, 0, 0)\<rparr>))))"
  using add_class_id_guard [of "(new_tool [] 0)\<lparr>current_bbox := Some (100, 100, 0, 0)\<rparr>"
      "(100, 100, 0, 0)" "''cat''"]
  by simp

text \<open>
  C2 as stated fails: an image of 800 by 600 is loaded, the button is pressed and released
  at (100, 100) with no move, so the pending box has zero width and zero height, and the
  commit with the name "cat" is accepted.
\<close>

theorem add_class_id_zero_box_counterexample:
  "map_sum id current_bbox
     (run (new_tool [] 0)
        [LoadImage ''a.png'' (800, 600), MousePress LeftButton (100, 100),
         MouseRelease LeftButton]) = Inr (Some (100, 100, 0, 0)) \<and>
   map_sum id bboxes
     (run (new_tool [] 0)
        [LoadImage ''a.png'' (800, 600), MousePress LeftButton (100, 100),
         MouseRelease LeftButton]) = Inr [] \<and>
   map_sum id bboxes
     (run (new_tool [] 0)
        [LoadImage ''a.png'' (800, 600), MousePress LeftButton (100, 100),
         MouseRelease LeftButton, AddClassId ''cat'']) = Inr [(100, 100, 0, 0, 0)] \<and>
   map_sum id current_bbox
     (run (new_tool [] 0)
        [LoadImage ''a.png'' (800, 600), MousePress LeftButton (100, 100),
         MouseRelease LeftButton, AddClassId ''cat'']) = Inr None \<and>
   map_sum id class_to_id
     (run (new_tool [] 0)
        [LoadImage ''a.png'' (800, 600), MousePress LeftButton (100, 100),
         MouseRelease LeftButton, AddClassId ''cat'']) = Inr [(''cat'', 0)]"
  by (simp add: handler_defs)

text \<open>
  C3, as the code has it. An accepted commit appends the pending box as it was drawn: the
  origin, the signed width and the signed height are the pending box's, followed by the
  class id of the name. Nothing makes the width or the height positive.
\<close>

theorem add_class_id_appends_as_drawn:
  "current_bbox s = Some (x, y, w, h) \<Longrightarrow> class_name \<noteq> [] \<Longrightarrow>
     \<exists>s' i. add_class_id s class_name = Inr s' \<and>
            bboxes s' = bboxes s @ [(x, y, w, h, i)] \<and>
            map_of (class_to_id s') class_name = Some i \<and>
            current_bbox s' = None"
proof -
  assume pending: "current_bbox s = Some (x, y, w, h)" and name: "class_name \<noteq> []"
  obtain d' n' i where r: "resolve (class_to_id s) (current_class_id s) class_name = Inr (d', n', i)"
    using resolve_total by blast
  have "map_of d' class_name = Some i"
    using r by (auto simp: resolve_def dict_get_def split: if_splits option.splits)
  with pending name r show ?thesis
    by (simp add: add_class_id_def)
qed

theorem add_class_id_appends_as_drawn_witness:
  "current_bbox ((new_tool [] 0)\<lparr>current_bbox := Some (300, 400, - 200, - 300)\<rparr>)
     = Some (300, 400, - 200, - 300) \<and> ''cat'' \<noteq> [] \<and>
   (\<exists>s' i. add_class_id ((new_tool [] 0)\<lparr>current_bbox := Some (300, 400, - 200, - 300)\<rparr>) ''cat'' = Inr s' \<and>
      bboxes s' = bboxes ((new_tool [] 0)\<lparr>current_bbox := Some (300, 400, - 200, - 300)\<rparr>)
                    @ [(300, 400, - 200, - 300, i)] \<and>
      map_of (class_to_id s') ''cat'' = Some i \<and>
      current_bbox s' = None)"
  using add_class_id_appends_as_drawn
    [of "(new_tool [] 0)\<lparr>current_bbox := Some (300, 400, - 200, - 300)\<rparr>" 300 400 "- 200" "- 300" "''cat''"]
  by simp

text \<open>
  C3 as stated fails: a drag from (300, 400) up and to the left to (100, 100) on an image
  of 800 by 600, committed as "cat", is stored with width -200 and height -300.
\<close>

theorem add_class_id_negative_box_counterexample:
  "map_sum id bboxes
     (run (new_tool [] 0)
        [LoadImage ''a.png'' (800, 600), MousePress LeftButton (300, 400),
         MouseMove (100, 100), MouseRelease LeftButton, AddClassId ''cat''])
     = Inr [(300, 400, - 200, - 300, 0)]"
  by (simp add: handler_defs)

subsection \<open>Loading an image\<close>

text \<open>
  C4, as the code has it. Loading an image (a path that is not empty, a pixmap with
  positive dimensions) succeeds, empties the committed box list, disables the save button
  and records the path and the pixmap. It leaves the pending box and the \<^verbatim>\<open>drawing\<close>
  flag as they were, and the registry and its counter too.
\<close>

theorem load_image_frame:
  "path \<noteq> [] \<Longrightarrow> 0 < fst pm \<Longrightarrow> 0 < snd pm \<Longrightarrow>
     \<exists>s'. load_image s path pm = Inr s' \<and> bboxes s' = [] \<and> save_button_enabled s' = False \<and>
       image_path s' = Some path \<and> original_pixmap s' = Some pm \<and>
       current_bbox s' = current_bbox s \<and> drawing s' = drawing s \<and>
       class_to_id s' = class_to_id s \<and> current_class_id s' = current_class_id s"
  by (cases pm)
    (simp add: load_image_def setPixmap_def update_scaled_pixmap_def py_div_def
       split: prod.splits)

theorem load_image_frame_witness:
  "''b.png'' \<noteq> [] \<and> 0 < fst (640::nat, 480::nat) \<and> 0 < snd (640::nat, 480::nat) \<and>
   (\<exists>s'. load_image ((new_tool [] 0)\<lparr>current_bbox := Some (100, 100, 200, 300)\<rparr>) ''b.png'' (640, 480)
           = Inr s' \<and>
      bboxes s' = [] \<and> save_button_enabled s' = False \<and>
      image_path s' = Some ''b.png'' \<and> original_pixmap s' = Some (640, 480) \<and>
      current_bbox s' = Some (100, 100, 200, 300) \<and> drawing s' = False \<and>
      class_to_id s' = [] \<and> current_class_id s' = 0)"
  using load_image_frame
    [of "''b.png''" "(640, 480)" "(new_tool [] 0)\<lparr>current_bbox := Some (100, 100, 200, 300)\<rparr>"]
  by (simp add: new_tool_def)

text \<open>
  C4 as stated fails: a box drawn on a first image and not yet committed is still pending
  after a second image is loaded; committed then, it is written to the label file of the
  second image.
\<close>

theorem load_image_keeps_pending_counterexample:
  "map_sum id current_bbox
     (run (new_tool [] 0)
        [LoadImage ''a.png'' (800, 600), MousePress LeftButton (100, 100),
         MouseMove (300, 400), MouseRelease LeftButton, LoadImage ''b.png'' (640, 480)])
     = Inr (Some (100, 100, 200, 300)) \<and>
   session_labels None
     [LoadImage ''a.png'' (800, 600), MousePress LeftButton (100, 100),
      MouseMove (300, 400), MouseRelease LeftButton, LoadImage ''b.png'' (640, 480),
      AddClassId ''cat'']
     = Inr (Some [(0, 1 / 4, 5 / 12, 1 / 4, 1 / 2)])"
  by (simp add: session_labels_def handler_defs)

subsection \<open>Loading the registry\<close>

lemma load_mapping_nonempty:
  "m \<noteq> [] \<Longrightarrow> load_mapping m = Inr (m, Max (set (dict_values m)) + 1)"
  by (cases m) (simp_all add: load_mapping_def dict_values_def Max.set_eq_fold [symmetric])

lemma next_id_not_loaded:
  "m \<noteq> [] \<Longrightarrow> Max (set (dict_values m)) + 1 \<notin> set (dict_values m)"
proof
  assume "m \<noteq> []" and "Max (set (dict_values m)) + 1 \<in> set (dict_values m)"
  then have "Max (set (dict_values m)) + 1 \<le> Max (set (dict_values m))"
    by (intro Max_ge) simp_all
  then show False by simp
qed

text \<open>
  C5. The claim gives the counter the value 0 when the persisted mapping is empty. The
  code takes \<^verbatim>\<open>max\<close> of the mapping's values with no guard: on the empty mapping the
  constructor raises ValueError, while with no mapping file it starts from the empty
  registry and the counter 0.
\<close>

theorem init_empty_mapping_raises:
  "init (Some []) = Inl ValueError \<and> init None = Inr (new_tool [] 0)"
  by (simp add: init_def load_mapping_def dict_values_def)

subsection \<open>Resolving names\<close>

lemma ids_upt: "map (\<lambda>k. n + int k) [0..<Suc m] = n # map (\<lambda>k. (n + 1) + int k) [0..<m]"
  by (simp add: map_upt_Suc del: upt_Suc)

lemma resolve_all_fresh:
  "distinct names \<Longrightarrow> \<forall>k \<in> set names. map_of d k = None \<Longrightarrow>
     resolve_all d n names =
       Inr (d @ zip names (map (\<lambda>k. n + int k) [0..<length names]),
            n + int (length names),
            map (\<lambda>k. n + int k) [0..<length names])"
proof (induction names arbitrary: d n)
  case Nil
  then show ?case by simp
next
  case (Cons k ks)
  have fresh: "map_of d k = None"
    using Cons.prems by simp
  have rest: "\<forall>k' \<in> set ks. map_of (d @ [(k, n)]) k' = None"
    using Cons.prems by (auto simp: map_add_def split: option.splits)
  have "distinct ks"
    using Cons.prems by simp
  from Cons.IH [OF this rest, of "n + 1"] fresh show ?case
    by (simp add: resolve_fresh ids_upt del: upt_Suc)
qed

text \<open>
  C6. A registered name resolves to its id and changes nothing; a name that is not
  registered gets the counter's value, is appended to the registry, and the counter goes
  up by one. Resolving never fails, and resolving the same name again gives the same id
  and changes nothing more. Resolving distinct names none of which is registered gives
  the ids \<open>n, n + 1, ...\<close> in order, where \<open>n\<close> is the counter at the start.
\<close>

theorem resolve_ids:
  "(map_of d name = Some i \<longrightarrow> resolve d n name = Inr (d, n, i)) \<and>
   (map_of d name = None \<longrightarrow> resolve d n name = Inr (d @ [(name, n)], n + 1, n)) \<and>
   (\<exists>d' n' j. resolve d n name = Inr (d', n', j) \<and> resolve d' n' name = Inr (d', n', j)) \<and>
   (distinct names \<and> (\<forall>k \<in> set names. map_of d k = None) \<longrightarrow>
      resolve_all d n names =
        Inr (d @ zip names (map (\<lambda>k. n + int k) [0..<length names]),
             n + int (length names),
             map (\<lambda>k. n + int k) [0..<length names]))"
proof -
  have twice: "\<exists>d' n' j. resolve d n name = Inr (d', n', j) \<and> resolve d' n' name = Inr (d', n', j)"
  proof (cases "map_of d name")
    case None
    then have "resolve d n name = Inr (d @ [(name, n)], n + 1, n)"
      by (rule resolve_fresh)
    moreover have "resolve (d @ [(name, n)]) (n + 1) name = Inr (d @ [(name, n)], n + 1, n)"
      using None by (intro resolve_registered) (simp add: map_add_def)
    ultimately show ?thesis by blast
  next
    case (Some j)
    then show ?thesis by (simp add: resolve_registered)
  qed
  show ?thesis
    using twice resolve_all_fresh [of names d n]
    by (simp add: resolve_fresh resolve_registered)
qed

theorem resolve_ids_witness:
  "map_of [(''dog'', 3)] ''dog'' = Some 3 \<and>
   resolve [(''dog'', 3)] 4 ''dog'' = Inr ([(''dog'', 3)], 4, 3) \<and>
   map_of [(''dog'', 3)] ''cat'' = None \<and>
   resolve [(''dog'', 3)] 4 ''cat'' = Inr ([(''dog'', 3), (''cat'', 4)], 5, 4) \<and>
   distinct [''cat'', ''bird''] \<and>
   map_of [(''dog'', 3)] ''bird'' = None \<and>
   resolve_all [(''dog'', 3)] 4 [''cat'', ''bird'']
     = Inr ([(''dog'', 3), (''cat'', 4), (''bird'', 5)], 6, [4, 5])"
  using resolve_ids [of "[(''dog'', 3)]" "''dog''" 3 4 "[''cat'', ''bird'']"]
        resolve_ids [of "[(''dog'', 3)]" "''cat''" 0 4 "[]"]
  by (simp add: upt_rec)

subsection \<open>The display transform\<close>

lemma update_scaled_pixmap_positive:
  assumes "0 < ow" "0 < oh"
  shows "update_scaled_pixmap (s\<lparr>original_pixmap := Some (ow, oh), widget_size := (vw, vh)\<rparr>) =
     Inr (s\<lparr>original_pixmap := Some (ow, oh), widget_size := (vw, vh),
            scale_factor := min (real vw / real ow) (real vh / real oh),
            image_offset := ((real vw - real (fst (QPixmap_scaled (ow, oh) (vw, vh)))) / 2,
                             (real vh - real (snd (QPixmap_scaled (ow, oh) (vw, vh)))) / 2),
            pixmap := Some (QPixmap_scaled (ow, oh) (vw, vh))\<rparr>)"
  using assms by (simp add: update_scaled_pixmap_def py_div_def split: prod.splits)

lemma scale_positive:
  "0 < ow \<Longrightarrow> 0 < oh \<Longrightarrow> 0 < vw \<Longrightarrow> 0 < vh \<Longrightarrow>
     0 < min (real vw / real ow) (real vh / real (oh::nat))"
  by simp

lemma inverse_of_nonzero_scale:
  assumes "scale_factor t \<noteq> 0"
  shows "to_image_space t (to_display_space t p) = Inr p"
    and "map_sum id (to_display_space t) (to_image_space t q) = Inr q"
  using assms by (simp_all add: to_image_space_def to_display_space_def py_div_def)

text \<open>
  C7. For a pixmap and a widget with positive dimensions, \<^verbatim>\<open>update_scaled_pixmap\<close>
  succeeds, and with the scale factor and the offset it sets, the map to image space
  and the map to display space are inverses of each other, in both orders, at every
  point. The numbers are reals: the equalities are exact.
\<close>

theorem transform_inverse:
  assumes "0 < ow" "0 < oh" "0 < vw" "0 < vh"
  shows "\<exists>t. update_scaled_pixmap (s\<lparr>original_pixmap := Some (ow, oh), widget_size := (vw, vh)\<rparr>) = Inr t \<and>
       to_image_space t (to_display_space t p) = Inr p \<and>
       map_sum id (to_display_space t) (to_image_space t q) = Inr q"
proof -
  obtain t where t: "update_scaled_pixmap (s\<lparr>original_pixmap := Some (ow, oh), widget_size := (vw, vh)\<rparr>) = Inr t"
    and sc: "scale_factor t = min (real vw / real ow) (real vh / real oh)"
    using assms by (simp add: update_scaled_pixmap_positive)
  have "0 < scale_factor t"
    unfolding sc by (rule scale_positive [OF assms])
  then have "scale_factor t \<noteq> 0"
    by simp
  then show ?thesis
    using t inverse_of_nonzero_scale by blast
qed

theorem transform_inverse_witness:
  "(0::nat) < 800 \<and> (0::nat) < 600 \<and> (0::nat) < 400 \<and> (0::nat) < 300 \<and>
   (\<exists>t. update_scaled_pixmap
           ((new_tool [] 0)\<lparr>original_pixmap := Some (800, 600), widget_size := (400, 300)\<rparr>) = Inr t \<and>
       to_image_space t (to_display_space t (100, 100)) = Inr (100, 100) \<and>
       map_sum id (to_display_space t) (to_image_space t (50, 50)) = Inr (50, 50))"
  using transform_inverse [of 800 600 400 300 "new_tool [] 0" "(100, 100)" "(50, 50)"]
  by simp

text \<open>
  C8, as the code has it. For a pixmap and a widget with positive dimensions,
  \<^verbatim>\<open>update_scaled_pixmap\<close> succeeds; the scale factor is the smaller of the two
  ratios of widget to pixmap; the offset is half of what the widget has left, in each
  direction, around the scaled pixmap the toolkit returns, whose sides are whole numbers
  of pixels.
\<close>

theorem display_transform:
  assumes "0 < ow" "0 < oh" "0 < vw" "0 < vh"
  shows "\<exists>t. update_scaled_pixmap (s\<lparr>original_pixmap := Some (ow, oh), widget_size := (vw, vh)\<rparr>) = Inr t \<and>
       scale_factor t = min (real vw / real ow) (real vh / real oh) \<and>
       pixmap t = Some (QPixmap_scaled (ow, oh) (vw, vh)) \<and>
       image_offset t = ((real vw - real (fst (QPixmap_scaled (ow, oh) (vw, vh)))) / 2,
                         (real vh - real (snd (QPixmap_scaled (ow, oh) (vw, vh)))) / 2)"
  using assms by (simp add: update_scaled_pixmap_positive)

theorem display_transform_witness:
  "(0::nat) < 1000 \<and> (0::nat) < 667 \<and> (0::nat) < 800 \<and> (0::nat) < 600 \<and>
   (\<exists>t. update_scaled_pixmap
           ((new_tool [] 0)\<lparr>original_pixmap := Some (1000, 667), widget_size := (800, 600)\<rparr>) = Inr t \<and>
       scale_factor t = 4 / 5 \<and> pixmap t = Some (800, 533) \<and> image_offset t = (0, 67 / 2))"
  using display_transform [of 1000 667 800 600 "new_tool [] 0"]
  by (simp add: QPixmap_scaled_def QSize_scaled_def)

text \<open>
  No pixmap with a whole number of pixels as its height gives the offset
  (600 - 667 * 4/5) / 2, whatever the toolkit's rounding.
\<close>

lemma no_whole_height_fits: "(600 - real (sh::nat)) / 2 \<noteq> (600 - 667 * (4 / 5)) / 2"
proof
  assume "(600 - real sh) / 2 = (600 - 667 * (4 / 5)) / 2"
  then have "real (5 * sh) = real 2668"
    by simp
  then have "5 * sh = 2668"
    by (simp only: of_nat_eq_iff)
  then show False
    by presburger
qed

text \<open>
  C8 as stated fails on the offset: an image of 1000 by 667 in the label of 800 by 600
  has scale factor 4/5 and a scaled pixmap of 800 by 533, so the vertical offset is
  67/2, not (600 - 667 * 4/5) / 2 = 166/5.
\<close>

theorem display_offset_counterexample:
  "map_sum id scale_factor (run (new_tool [] 0) [LoadImage ''a.png'' (1000, 667)]) = Inr (4 / 5) \<and>
   map_sum id image_offset (run (new_tool [] 0) [LoadImage ''a.png'' (1000, 667)]) = Inr (0, 67 / 2) \<and>
   (67 / 2 :: real) \<noteq> (600 - 667 * (4 / 5)) / 2"
  by (simp add: handler_defs)

subsection \<open>Saving\<close>

text \<open>
  With a pixmap of positive dimensions, Save Labels writes one line for each committed
  box, in order: the class id and the four quotients by the dimensions of that pixmap.
\<close>

lemma encode_line_positive:
  "0 < iw \<Longrightarrow> 0 < ih \<Longrightarrow>
     encode_line (iw, ih) (x, y, w, h, c) =
       Inr (c, (x + w / 2) / real iw, (y + h / 2) / real ih, w / real iw, h / real ih)"
  by (simp add: encode_line_def py_div_def)

lemma encode_lines_positive:
  "0 < iw \<Longrightarrow> 0 < ih \<Longrightarrow>
     encode_lines (iw, ih) bs =
       Inr (map (\<lambda>(x, y, w, h, c).
              (c, (x + w / 2) / real iw, (y + h / 2) / real ih, w / real iw, h / real ih)) bs)"
  by (induction bs) (auto simp: encode_line_positive)

lemma save_labels_lines:
  "image_path s = Some path \<Longrightarrow> path \<noteq> [] \<Longrightarrow> bboxes s \<noteq> [] \<Longrightarrow>
   pixmap s = Some (iw, ih) \<Longrightarrow> 0 < iw \<Longrightarrow> 0 < ih \<Longrightarrow>
     save_labels s =
       Inr (s\<lparr>save_button_enabled := False\<rparr>,
            Some (map (\<lambda>(x, y, w, h, c).
                    (c, (x + w / 2) / real iw, (y + h / 2) / real ih, w / real iw, h / real ih))
                  (bboxes s)))"
  by (simp add: save_labels_def encode_lines_positive)

text \<open>
  C1. The claim divides by the native dimensions of the loaded image. The code divides
  the boxes, which are in image space, by the dimensions of the label's pixmap, which is
  the scaled one. With the label at 400 by 300, an image of 800 by 600 and the drag that
  covers (100, 100) to (300, 400) of the image, the committed box is
  (100, 100, 200, 300, 0) and the line written is 0, 1/2, 5/6, 1/2, 1, where the claim
  has 0, 1/4, 5/12, 1/4, 1/2. With the label at 800 by 600 the scale factor is 1 and the
  numbers are the claim's.
\<close>

theorem save_labels_divides_by_scaled_size:
  "map_sum id bboxes
     (run (new_tool [] 0)
        [Resize (400, 300), LoadImage ''a.png'' (800, 600), MousePress LeftButton (50, 50),
         MouseMove (150, 200), MouseRelease LeftButton, AddClassId ''cat''])
     = Inr [(100, 100, 200, 300, 0)] \<and>
   map_sum id original_pixmap
     (run (new_tool [] 0)
        [Resize (400, 300), LoadImage ''a.png'' (800, 600), MousePress LeftButton (50, 50),
         MouseMove (150, 200), MouseRelease LeftButton, AddClassId ''cat''])
     = Inr (Some (800, 600)) \<and>
   session_labels None
     [Resize (400, 300), LoadImage ''a.png'' (800, 600), MousePress LeftButton (50, 50),
      MouseMove (150, 200), MouseRelease LeftButton, AddClassId ''cat'']
     = Inr (Some [(0, 1 / 2, 5 / 6, 1 / 2, 1)]) \<and>
   session_labels None
     [LoadImage ''a.png'' (800, 600), MousePress LeftButton (100, 100),
      MouseMove (300, 400), MouseRelease LeftButton, AddClassId ''cat'']
     = Inr (Some [(0, 1 / 4, 5 / 12, 1 / 4, 1 / 2)])"
  by (simp add: session_labels_def handler_defs)

subsection \<open>Rendering\<close>

lemma reverse_lookup_registered:
  "i \<in> snd ` set d \<Longrightarrow> \<exists>name. reverse_lookup d i = Inr name"
proof -
  assume "i \<in> snd ` set d"
  then obtain k where "(k, i) \<in> set d" by auto
  then have "k \<in> set (map fst (filter (\<lambda>(name, j). j = i) d))"
    by force
  then show ?thesis
    by (cases "map fst (filter (\<lambda>(name, j). j = i) d)") (auto simp: reverse_lookup_def)
qed

lemma paint_boxes_registered:
  "list_all (\<lambda>(x, y, w, h, class_id). class_id \<in> snd ` set (class_to_id s)) bs \<Longrightarrow>
     \<exists>drawn. paint_boxes s bs = Inr drawn"
proof (induction bs)
  case Nil
  then show ?case by simp
next
  case (Cons b bs)
  obtain x y w h i where b: "b = (x, y, w, h, i)"
    by (cases b) auto
  from Cons.prems b obtain name where "reverse_lookup (class_to_id s) i = Inr name"
    using reverse_lookup_registered by fastforce
  moreover from Cons obtain drawn where "paint_boxes s bs = Inr drawn"
    by auto
  ultimately show ?case
    using b by simp
qed

lemma update_scaled_pixmap_boxes:
  "update_scaled_pixmap s = Inr t \<Longrightarrow> bboxes t = bboxes s \<and> class_to_id t = class_to_id s"
  by (auto simp: update_scaled_pixmap_def py_div_def split: option.splits prod.splits if_splits)

lemma step_ids_registered:
  assumes "ids_registered s" and "step s ev = Inr t"
  shows "ids_registered t"
proof (cases ev)
  case (Resize sz)
  with assms show ?thesis
    by (auto simp: step_def resizeEvent_def ids_registered_def dest!: update_scaled_pixmap_boxes)
next
  case (MousePress b p)
  with assms show ?thesis
    by (auto simp: step_def mousePressEvent_def ids_registered_def split: if_splits sum.splits)
next
  case (MouseMove p)
  with assms show ?thesis
    by (auto simp: step_def mouseMoveEvent_def ids_registered_def
        split: if_splits sum.splits option.splits)
next
  case (MouseRelease b)
  with assms show ?thesis
    by (auto simp: step_def mouseReleaseEvent_def ids_registered_def)
next
  case (LoadImage path pm)
  with assms show ?thesis
    by (auto simp: step_def load_image_def setPixmap_def ids_registered_def Let_def
        split: if_splits sum.splits dest!: update_scaled_pixmap_boxes)
next
  case (AddClassId class_name)
  show ?thesis
  proof (cases "current_bbox s = None \<or> class_name = []")
    case True
    with assms AddClassId show ?thesis
      by (auto simp: step_def add_class_id_def split: option.splits)
  next
    case False
    then obtain x y w h where pending: "current_bbox s = Some (x, y, w, h)" and name: "class_name \<noteq> []"
      by auto
    obtain d' n' i where r: "resolve (class_to_id s) (current_class_id s) class_name = Inr (d', n', i)"
      using resolve_total by blast
    from assms AddClassId pending name r
    have t: "class_to_id t = d'" "bboxes t = bboxes s @ [(x, y, w, h, i)]"
      by (auto simp: step_def add_class_id_def)
    have "set (class_to_id s) \<subseteq> set d'" and "(class_name, i) \<in> set d'"
      using resolve_grows [OF r] by simp_all
    then show ?thesis
      using assms(1) t by (force simp: ids_registered_def list_all_iff)
  qed
next
  case SaveLabels
  with assms show ?thesis
    by (auto simp: step_def save_labels_def ids_registered_def
        split: option.splits if_splits sum.splits)
qed

lemma run_ids_registered:
  "ids_registered s \<Longrightarrow> run s evs = Inr t \<Longrightarrow> ids_registered t"
proof (induction evs arbitrary: s)
  case Nil
  then show ?case by simp
next
  case (Cons ev evs)
  then show ?case
    by (auto split: sum.splits dest: step_ids_registered)
qed

lemma init_ids_registered: "init mapping_file = Inr s \<Longrightarrow> ids_registered s"
  by (auto simp: init_def new_tool_def ids_registered_def split: option.splits sum.splits)

text \<open>
  C9. In every state a session reaches, from the constructor (with or without a mapping
  file) through any events, \<^verbatim>\<open>paintEvent\<close> returns: for the class id of every
  committed box the registry has a name, so the list of line 85 is not empty and its
  element 0 exists.
\<close>

theorem rendering_never_faults:
  "init mapping_file = Inr s0 \<Longrightarrow> run s0 evs = Inr s \<Longrightarrow>
     (\<exists>out. paintEvent s = Inr out) \<and>
     (\<forall>b \<in> set (bboxes s).
        \<exists>name. reverse_lookup (class_to_id s) (snd (snd (snd (snd b)))) = Inr name)"
proof -
  assume "init mapping_file = Inr s0" and "run s0 evs = Inr s"
  then have inv: "ids_registered s"
    using init_ids_registered run_ids_registered by blast
  then obtain drawn where "paint_boxes s (bboxes s) = Inr drawn"
    unfolding ids_registered_def using paint_boxes_registered by blast
  then have "\<exists>out. paintEvent s = Inr out"
    by (simp add: paintEvent_def split: option.splits)
  moreover have "\<forall>b \<in> set (bboxes s).
      \<exists>name. reverse_lookup (class_to_id s) (snd (snd (snd (snd b)))) = Inr name"
    using inv by (auto simp: ids_registered_def list_all_iff intro!: reverse_lookup_registered)
  ultimately show ?thesis by blast
qed

theorem rendering_never_faults_witness:
  "init (Some [(''dog'', 3)]) = Inr (new_tool [(''dog'', 3)] 4) \<and>
   map_sum id bboxes
     (run (new_tool [(''dog'', 3)] 4)
        [LoadImage ''a.png'' (800, 600), MousePress LeftButton (100, 100),
         MouseMove (300, 400), MouseRelease LeftButton, AddClassId ''cat''])
     = Inr [(100, 100, 200, 300, 4)] \<and>
   map_sum id class_to_id
     (run (new_tool [(''dog'', 3)] 4)
        [LoadImage ''a.png'' (800, 600), MousePress LeftButton (100, 100),
         MouseMove (300, 400), MouseRelease LeftButton, AddClassId ''cat''])
     = Inr [(''dog'', 3), (''cat'', 4)] \<and>
   (\<exists>out. paintEvent
      (projr (run (new_tool [(''dog'', 3)] 4)
        [LoadImage ''a.png'' (800, 600), MousePress LeftButton (100, 100),
         MouseMove (300, 400), MouseRelease LeftButton, AddClassId ''cat''])) = Inr out) \<and>
   (\<exists>name. reverse_lookup [(''dog'', 3), (''cat'', 4)] 4 = Inr name)"
  using rendering_never_faults
    [of "Some [(''dog'', 3)]" "new_tool [(''dog'', 3)] 4"
        "[LoadImage ''a.png'' (800, 600), MousePress LeftButton (100, 100),
          MouseMove (300, 400), MouseRelease LeftButton, AddClassId ''cat'']"
        "projr (run (new_tool [(''dog'', 3)] 4)
           [LoadImage ''a.png'' (800, 600), MousePress LeftButton (100, 100),
            MouseMove (300, 400), MouseRelease LeftButton, AddClassId ''cat''])"]
  by (simp add: handler_defs)

end
